theory Spec2Isabelle
  imports Main "HOL-Library.Sublist"
begin

section \<open>JavaScript values\<close>

text \<open>
  The helpers of \<^verbatim>\<open>ui/src/overridden/utils.js\<close> are untyped JavaScript: a record, an
  identifier, a shelf number or a configuration entry can be any value. The embedding
  keeps that: every argument is a \<open>jsval\<close>.

  \<^item> \<open>JNum\<close> carries an integer; it stands for the integral Number values that a
    double holds exactly and prints without an exponent (negative zero behaves as
    \<open>JNum 0\<close> in everything used here). NaN, the infinities, fractions and the
    integers a double cannot hold are not part of the model.
  \<^item> \<open>JStr\<close> carries the UTF-8 bytes of a well-formed string.
  \<^item> \<open>JObj\<close> lists the own enumerable data properties of a plain object in enumeration
    order; \<open>JArr\<close> lists the elements of a dense array.
  \<^item> Functions, symbols, BigInts, getters, cyclic structures and objects with a
    \<^verbatim>\<open>toString\<close>, \<^verbatim>\<open>valueOf\<close> or \<^verbatim>\<open>toJSON\<close> property of their own are not
    part of the model, and neither is object identity.
\<close>

datatype jsval =
    JUndefined
  | JNull
  | JBool bool
  | JNum int
  | JStr string
  | JArr "jsval list"
  | JObj "(string \<times> jsval) list"

text \<open>
  Every failure in the file is a \<^verbatim>\<open>TypeError\<close>: reading a property of
  \<^verbatim>\<open>null\<close> or \<^verbatim>\<open>undefined\<close>, or calling something that is not a function.
  The error carries the name of the property whose read or call raised.
\<close>

datatype js_error = TypeError string

type_synonym 'a result = "js_error + 'a"

text \<open>\<^verbatim>\<open>x == null\<close>: the value is \<^verbatim>\<open>null\<close> or \<^verbatim>\<open>undefined\<close>.\<close>

fun nullish :: "jsval \<Rightarrow> bool" where
  "nullish JUndefined = True"
| "nullish JNull = True"
| "nullish _ = False"

text \<open>ToBoolean, as used by \<^verbatim>\<open>if (x)\<close> and \<^verbatim>\<open>x && y\<close>.\<close>

fun truthy :: "jsval \<Rightarrow> bool" where
  "truthy JUndefined = False"
| "truthy JNull = False"
| "truthy (JBool b) = b"
| "truthy (JNum n) = (n \<noteq> 0)"
| "truthy (JStr s) = (s \<noteq> [])"
| "truthy (JArr _) = True"
| "truthy (JObj _) = True"

text \<open>
  Strict equality \<^verbatim>\<open>a === b\<close>. Primitives are compared by type and value. Two
  objects are \<^verbatim>\<open>===\<close> only when they are the same object; the model has no object
  identity, so an array or object value stands for an object of its own and is
  \<^verbatim>\<open>===\<close> to nothing.
\<close>

fun strict_equals :: "jsval \<Rightarrow> jsval \<Rightarrow> bool" where
  "strict_equals JUndefined JUndefined = True"
| "strict_equals JNull JNull = True"
| "strict_equals (JBool a) (JBool b) = (a = b)"
| "strict_equals (JNum a) (JNum b) = (a = b)"
| "strict_equals (JStr a) (JStr b) = (a = b)"
| "strict_equals _ _ = False"

subsection \<open>Conversion to string\<close>

text \<open>Number::toString on the integers of the model: decimal digits, a minus sign first.\<close>

definition digit_char :: "nat \<Rightarrow> char" where
  "digit_char d = ''0123456789abcdef'' ! d"

fun show_nat :: "nat \<Rightarrow> string" where
  "show_nat n = (if n < 10 then [digit_char n] else show_nat (n div 10) @ [digit_char (n mod 10)])"

definition show_int :: "int \<Rightarrow> string" where
  "show_int i = (if i < 0 then ''-'' @ show_nat (nat (- i)) else show_nat (nat i))"

fun join_with :: "string \<Rightarrow> string list \<Rightarrow> string" where
  "join_with sep [] = []"
| "join_with sep [s] = s"
| "join_with sep (s # t # ts) = s @ sep @ join_with sep (t # ts)"

text \<open>
  ToString, as applied by a template literal \<^verbatim>\<open>`${x}`\<close>. An array is joined with
  commas, its \<^verbatim>\<open>null\<close> and \<^verbatim>\<open>undefined\<close> elements giving the empty string; a
  plain object is \<^verbatim>\<open>[object Object]\<close>.
\<close>

fun ToString :: "jsval \<Rightarrow> string" where
  "ToString JUndefined = ''undefined''"
| "ToString JNull = ''null''"
| "ToString (JBool b) = (if b then ''true'' else ''false'')"
| "ToString (JNum n) = show_int n"
| "ToString (JStr s) = s"
| "ToString (JArr xs) = join_with '','' (map (\<lambda>x. if nullish x then [] else ToString x) xs)"
| "ToString (JObj ps) = ''[object Object]''"

subsection \<open>Property access\<close>

text \<open>
  \<open>js_get x k\<close> is \<^verbatim>\<open>x[k]\<close> for a value \<open>x\<close> that is neither \<^verbatim>\<open>null\<close> nor
  \<^verbatim>\<open>undefined\<close>: the own property of an object, the element or the length of an
  array, and \<^verbatim>\<open>undefined\<close> otherwise. The length and the characters of a string
  and the members of the built-in prototypes are not modelled and read as
  \<^verbatim>\<open>undefined\<close>; the helpers read them only when a configuration path names
  one, and no sequence of entries lies behind any of them.
\<close>

fun js_get :: "jsval \<Rightarrow> string \<Rightarrow> jsval" where
  "js_get (JObj ps) k = (case map_of ps k of Some v \<Rightarrow> v | None \<Rightarrow> JUndefined)"
| "js_get (JArr xs) k =
     (if k = ''length'' then JNum (int (length xs))
      else case List.find (\<lambda>i. show_nat i = k) [0 ..< length xs] of
             Some i \<Rightarrow> xs ! i
           | None \<Rightarrow> JUndefined)"
| "js_get _ k = JUndefined"

text \<open>The member expression \<^verbatim>\<open>x.k\<close>, which throws on \<^verbatim>\<open>null\<close> and \<^verbatim>\<open>undefined\<close>.\<close>

definition member :: "jsval \<Rightarrow> string \<Rightarrow> jsval result" where
  "member x k = (if nullish x then Inl (TypeError k) else Inr (js_get x k))"

subsection \<open>\<^verbatim>\<open>lodash/get\<close>\<close>

text \<open>
  \<^verbatim>\<open>_get(object, path, defaultValue)\<close> of lodash, for a path given as its list of
  keys. A string path stands for the key list lodash's \<^verbatim>\<open>castPath\<close> makes of it:
  \<^verbatim>\<open>"identifiers"\<close> is \<open>[''identifiers'']\<close>, \<^verbatim>\<open>"ITEMS.statuses"\<close> is
  \<open>[''ITEMS'', ''statuses'']\<close>. \<open>baseGet\<close> walks the keys while the value is not
  nullish and gives \<^verbatim>\<open>undefined\<close> when it stops early or the path is empty; the
  default replaces an \<^verbatim>\<open>undefined\<close> result, not a \<^verbatim>\<open>null\<close> one.
\<close>

fun baseGet_loop :: "jsval \<Rightarrow> string list \<Rightarrow> jsval" where
  "baseGet_loop object [] = object"
| "baseGet_loop object (k # ks) =
     (if nullish object then JUndefined else baseGet_loop (js_get object k) ks)"

definition baseGet :: "jsval \<Rightarrow> string list \<Rightarrow> jsval" where
  "baseGet object path = (if path = [] then JUndefined else baseGet_loop object path)"

definition lodash_get :: "jsval \<Rightarrow> string list \<Rightarrow> jsval \<Rightarrow> jsval" where
  "lodash_get object path defaultValue =
     (let result = (if nullish object then JUndefined else baseGet object path)
      in if result = JUndefined then defaultValue else result)"

subsection \<open>\<^verbatim>\<open>Array.prototype.find\<close>\<close>

text \<open>
  The elements are visited in order; the first one the callback accepts is returned,
  \<^verbatim>\<open>undefined\<close> when there is none. An exception of the callback ends the search.
\<close>

fun array_find :: "(jsval \<Rightarrow> bool result) \<Rightarrow> jsval list \<Rightarrow> jsval result" where
  "array_find p [] = Inr JUndefined"
| "array_find p (x # xs) =
     (case p x of
        Inl e \<Rightarrow> Inl e
      | Inr b \<Rightarrow> if b then Inr x else array_find p xs)"

text \<open>
  \<^verbatim>\<open>x.find(callback)\<close>: on an array the search above. On \<^verbatim>\<open>null\<close> and
  \<^verbatim>\<open>undefined\<close> the read of \<^verbatim>\<open>find\<close> throws; any other value has no function
  \<^verbatim>\<open>find\<close>, and the call throws.
\<close>

fun call_find :: "jsval \<Rightarrow> (jsval \<Rightarrow> bool result) \<Rightarrow> jsval result" where
  "call_find (JArr xs) p = array_find p xs"
| "call_find _ p = Inl (TypeError ''find'')"

subsection \<open>\<^verbatim>\<open>JSON.stringify\<close>\<close>

text \<open>
  QuoteJSONString: the quotation mark, the backslash and the control characters are
  escaped (the short escapes where JSON has one, \<^verbatim>\<open>\u00xx\<close> with lower-case
  digits otherwise); every other byte is copied.
\<close>

definition json_escape :: "char \<Rightarrow> string" where
  "json_escape c =
     (if c = CHR 0x08 then [CHR 0x5C, CHR ''b'']
      else if c = CHR 0x09 then [CHR 0x5C, CHR ''t'']
      else if c = CHR 0x0A then [CHR 0x5C, CHR ''n'']
      else if c = CHR 0x0C then [CHR 0x5C, CHR ''f'']
      else if c = CHR 0x0D then [CHR 0x5C, CHR ''r'']
      else if c = CHR 0x22 then [CHR 0x5C, CHR 0x22]
      else if c = CHR 0x5C then [CHR 0x5C, CHR 0x5C]
      else if (of_char c :: nat) < 32
        then [CHR 0x5C, CHR ''u'', CHR ''0'', CHR ''0'',
              digit_char (of_char c div 16), digit_char (of_char c mod 16)]
      else [c])"

definition quote_json :: "string \<Rightarrow> string" where
  "quote_json s = [CHR 0x22] @ concat (map json_escape s) @ [CHR 0x22]"

text \<open>
  SerializeJSONProperty. \<open>None\<close> is the result \<^verbatim>\<open>undefined\<close>, which
  \<^verbatim>\<open>JSON.stringify\<close> gives for \<^verbatim>\<open>undefined\<close> alone among the values of the
  model. An \<^verbatim>\<open>undefined\<close> element of an array is written \<^verbatim>\<open>null\<close>; a property
  whose value is \<^verbatim>\<open>undefined\<close> is left out.
\<close>

fun JSON_stringify :: "jsval \<Rightarrow> string option" where
  "JSON_stringify JUndefined = None"
| "JSON_stringify JNull = Some ''null''"
| "JSON_stringify (JBool b) = Some (if b then ''true'' else ''false'')"
| "JSON_stringify (JNum n) = Some (show_int n)"
| "JSON_stringify (JStr s) = Some (quote_json s)"
| "JSON_stringify (JArr xs) =
     Some (''['' @ join_with '','' (map (\<lambda>x. case JSON_stringify x of
                                                 None \<Rightarrow> ''null''
                                               | Some s \<Rightarrow> s) xs) @ '']'')"
| "JSON_stringify (JObj ps) =
     Some (''{'' @ join_with '','' (concat (map (\<lambda>(k, v). case JSON_stringify v of
                                                           None \<Rightarrow> []
                                                         | Some s \<Rightarrow> [quote_json k @ '':'' @ s]) ps))
             @ ''}'')"

subsection \<open>React elements\<close>

text \<open>
  What the JSX of the file builds: an expression container \<^verbatim>\<open>{x}\<close> holding a
  value, the \<^verbatim>\<open>Icon\<close> of semantic-ui with its \<^verbatim>\<open>name\<close>, an anchor with its
  \<^verbatim>\<open>href\<close>, \<^verbatim>\<open>target\<close>, \<^verbatim>\<open>rel\<close> and children, and a fragment.
\<close>

datatype react_node =
    Child jsval
  | Icon jsval
  | Anchor (href: string) (target: string) (rel: string) (children: "react_node list")
  | Fragment "react_node list"

fun is_anchor :: "react_node \<Rightarrow> bool" where
  "is_anchor (Anchor h t r cs) = True"
| "is_anchor _ = False"

text \<open>The element itself and every element below it, in document order.\<close>

fun subnodes :: "react_node \<Rightarrow> react_node list" where
  "subnodes (Child v) = [Child v]"
| "subnodes (Icon n) = [Icon n]"
| "subnodes (Anchor h t r cs) = Anchor h t r cs # concat (map subnodes cs)"
| "subnodes (Fragment cs) = Fragment cs # concat (map subnodes cs)"

section \<open>The helpers of \<^verbatim>\<open>utils.js\<close>\<close>

text \<open>
  Each helper assigns to its own local variables only and calls nothing but the
  library functions above, so it is embedded as a function of its arguments; a thrown
  \<^verbatim>\<open>TypeError\<close> is the result \<open>Inl\<close>.
\<close>

subsection \<open>\<^verbatim>\<open>renderCallNumber\<close>\<close>

definition renderCallNumber :: "jsval \<Rightarrow> jsval result" where
  "renderCallNumber item =
     (let identifiers = lodash_get item [''identifiers''] (JArr [])
      in if identifiers = JNull then Inr JNull
         else case call_find identifiers
                     (\<lambda>identifier. case member identifier ''scheme'' of
                                      Inl e \<Rightarrow> Inl e
                                    | Inr scheme \<Rightarrow> Inr (strict_equals scheme (JStr ''CALL_NUMBER''))) of
                Inl e \<Rightarrow> Inl e
              | Inr callNumber \<Rightarrow>
                  if truthy callNumber
                  then (case member callNumber ''value'' of
                          Inl e \<Rightarrow> Inl e
                        | Inr v \<Rightarrow> Inr (JStr (''('' @ ToString v @ '')'')))
                  else Inr JNull)"

subsection \<open>\<^verbatim>\<open>shelfLink\<close>\<close>

text \<open>
  The second parameter is destructured, \<^verbatim>\<open>{ popupContent = null, iframe = false }\<close>:
  that throws on \<^verbatim>\<open>null\<close> and \<^verbatim>\<open>undefined\<close>, and a default replaces a property
  that reads \<^verbatim>\<open>undefined\<close>. Interpolating the result \<^verbatim>\<open>undefined\<close> of
  \<^verbatim>\<open>JSON.stringify\<close> would give that word.
\<close>

definition shelfLink :: "jsval \<Rightarrow> jsval \<Rightarrow> string result" where
  "shelfLink shelfNumber options =
     (case member options ''popupContent'' of
        Inl e \<Rightarrow> Inl e
      | Inr p \<Rightarrow>
          (let popupContent = (if p = JUndefined then JNull else p);
               i = js_get options ''iframe'';
               iframe = (if i = JUndefined then JBool False else i);
               shelfLink0 = ''https://maps.web.cern.ch/?n=['SHELF '' @ ToString shelfNumber
                              @ [CHR 0x27, CHR '']''];
               shelfLink1 =
                 (if popupContent \<noteq> JNull
                  then shelfLink0 @ ''&popupContent=''
                         @ (case JSON_stringify popupContent of
                              Some s \<Rightarrow> s
                            | None \<Rightarrow> ''undefined'')
                  else shelfLink0);
               shelfLink2 =
                 (if truthy iframe
                  then shelfLink1 @ ''&showMenu=false&widgets=&scale=200''
                  else shelfLink1)
           in Inr shelfLink2))"

subsection \<open>\<^verbatim>\<open>shelfLinkComponent\<close>\<close>

text \<open>
  \<^verbatim>\<open>iconName\<close> defaults to \<^verbatim>\<open>"map pin"\<close> when it is \<^verbatim>\<open>undefined\<close>. The
  statements run in the order of the source: \<^verbatim>\<open>renderCallNumber(item)\<close> first, the
  read of \<^verbatim>\<open>item.title\<close> after it. \<^verbatim>\<open>shelfNumber && (...)\<close> is the anchor when
  \<^verbatim>\<open>shelfNumber\<close> is truthy and \<^verbatim>\<open>shelfNumber\<close> itself otherwise.
\<close>

definition shelfLinkComponent :: "jsval \<Rightarrow> jsval \<Rightarrow> react_node result" where
  "shelfLinkComponent item iconName0 =
     (let iconName = (if iconName0 = JUndefined then JStr ''map pin'' else iconName0);
          shelfNumber = lodash_get item [''shelf''] JUndefined
      in case renderCallNumber item of
           Inl e \<Rightarrow> Inl e
         | Inr callNumber \<Rightarrow>
             (case member item ''title'' of
                Inl e \<Rightarrow> Inl e
              | Inr title \<Rightarrow>
                  (let popupContent = JObj [(''Title'', title), (''Call number'', callNumber)]
                   in case shelfLink shelfNumber (JObj [(''popupContent'', popupContent)]) of
                        Inl e \<Rightarrow> Inl e
                      | Inr linkToShelf \<Rightarrow>
                          Inr (Fragment
                                 [if truthy shelfNumber
                                  then Anchor linkToShelf ''_blank'' ''noreferrer''
                                         [Icon iconName, Child shelfNumber]
                                  else Child shelfNumber,
                                  Child (JStr '' ''),
                                  Child callNumber]))))"

subsection \<open>\<^verbatim>\<open>getDisplayVal\<close>\<close>

text \<open>
  \<^verbatim>\<open>invenioConfig\<close> is the configuration object of the host application, imported
  from \<^verbatim>\<open>@inveniosoftware/react-invenio-app-ils\<close>; it is a parameter here.
  \<^verbatim>\<open>configField\<close> is the path into it, as its list of keys.
\<close>

definition getDisplayVal :: "jsval \<Rightarrow> string list \<Rightarrow> jsval \<Rightarrow> jsval result" where
  "getDisplayVal invenioConfig configField val =
     (case call_find (lodash_get invenioConfig configField JUndefined)
                     (\<lambda>entry. case member entry ''value'' of
                                 Inl e \<Rightarrow> Inl e
                               | Inr v \<Rightarrow> Inr (strict_equals v val)) of
        Inl e \<Rightarrow> Inl e
      | Inr found \<Rightarrow> member found ''text'')"

section \<open>Auxiliary facts\<close>

lemma js_get_nullish: "nullish x \<Longrightarrow> js_get x k = JUndefined"
  by (cases x) simp_all

lemma lodash_get_key:
  "lodash_get item [k] d = (if js_get item k = JUndefined then d else js_get item k)"
  by (cases "nullish item") (simp_all add: lodash_get_def baseGet_def js_get_nullish)

lemma strict_equals_JStr: "strict_equals x (JStr s) = (x = JStr s)"
  by (cases x) auto

lemma member_not_nullish: "\<not> nullish x \<Longrightarrow> member x k = Inr (js_get x k)"
  by (simp add: member_def)

text \<open>
  A search whose callback reads the property \<open>k\<close> of the element and tests it: the
  first element that is nullish or passes the test ends it, with the error of the
  read in the first case.
\<close>

lemma array_find_member:
  "array_find (\<lambda>x. case member x k of Inl e \<Rightarrow> Inl e | Inr v \<Rightarrow> Inr (q v)) xs
   = (case List.find (\<lambda>x. nullish x \<or> q (js_get x k)) xs of
        None \<Rightarrow> Inr JUndefined
      | Some x \<Rightarrow> if nullish x then Inl (TypeError k) else Inr x)"
  by (induction xs) (simp_all add: member_def)

lemma find_holds: "List.find P xs = Some x \<Longrightarrow> P x"
  by (induction xs) (auto split: if_splits)

text \<open>\<^verbatim>\<open>renderCallNumber\<close> returns \<^verbatim>\<open>null\<close> or a string.\<close>

lemma renderCallNumber_cases:
  "renderCallNumber item = Inr cn \<Longrightarrow> cn = JNull \<or> (\<exists>s. cn = JStr s)"
  by (auto simp: renderCallNumber_def Let_def split: if_splits sum.splits)

text \<open>What \<^verbatim>\<open>shelfLinkComponent\<close> returns, and when it returns.\<close>

lemma shelfLinkComponent_unfold:
  assumes "shelfLinkComponent item iconName = Inr frag"
  shows "\<exists>cn link.
           renderCallNumber item = Inr cn
         \<and> shelfLink (lodash_get item [''shelf''] JUndefined)
                      (JObj [(''popupContent'',
                              JObj [(''Title'', js_get item ''title''), (''Call number'', cn)])])
             = Inr link
         \<and> frag = Fragment
                    [if truthy (lodash_get item [''shelf''] JUndefined)
                     then Anchor link ''_blank'' ''noreferrer''
                            [Icon (if iconName = JUndefined then JStr ''map pin'' else iconName),
                             Child (lodash_get item [''shelf''] JUndefined)]
                     else Child (lodash_get item [''shelf''] JUndefined),
                     Child (JStr '' ''),
                     Child cn]"
  using assms
  by (auto simp: shelfLinkComponent_def Let_def member_def split: sum.splits if_splits)

lemma shelfLinkComponent_returns:
  assumes "\<not> nullish item" and "renderCallNumber item = Inr cn"
  shows "\<exists>frag. shelfLinkComponent item iconName = Inr frag"
  using assms by (simp add: shelfLinkComponent_def shelfLink_def member_def Let_def)

text \<open>
  Occurrences of a text in a concatenation: none in a part that lacks its first
  character, and none across a character that the text does not have.
\<close>

lemma sublist_skip_absent_head:
  "P \<noteq> [] \<Longrightarrow> hd P \<notin> set X \<Longrightarrow> sublist P (X @ Y) = sublist P Y"
proof (induction X)
  case Nil
  then show ?case by simp
next
  case (Cons x X)
  then obtain p P' where P: "P = p # P'" by (cases P) auto
  with Cons.prems have "p \<noteq> x" by auto
  then have "\<not> prefix P (x # X @ Y)" by (simp add: P)
  with Cons show ?case by (simp add: sublist_Cons_right)
qed

lemma sublist_cut:
  assumes "c \<notin> set P"
  shows "sublist P (X @ c # Y) = (sublist P X \<or> sublist P Y)"
proof
  assume "sublist P (X @ c # Y)"
  then consider "sublist P X" | "sublist P (c # Y)"
    | xs1 xs2 where "P = xs1 @ xs2" "suffix xs1 X" "prefix xs2 (c # Y)"
    by (auto simp: sublist_append)
  then show "sublist P X \<or> sublist P Y"
  proof cases
    case 1
    then show ?thesis by simp
  next
    case 2
    then have "prefix P (c # Y) \<or> sublist P Y" by (simp add: sublist_Cons_right)
    moreover have "P = []" if "prefix P (c # Y)"
      using that assms by (cases P) auto
    ultimately show ?thesis by auto
  next
    case 3
    have "xs2 = []"
      using 3(1,3) assms by (cases xs2) auto
    with 3 have "suffix P X" by simp
    then have "sublist P X" by (rule suffix_imp_sublist)
    then show ?thesis by simp
  qed
next
  assume "sublist P X \<or> sublist P Y"
  then show "sublist P (X @ c # Y)"
    by (auto simp: sublist_append sublist_Cons_right)
qed

lemma iframe_params_in_link:
  "sublist ''&showMenu=false&widgets=&scale=200''
     (''https://maps.web.cern.ch/?n=['SHELF '' @ s @ [CHR 0x27] @ '']'' @ ''&popupContent='' @ j)
   = (sublist ''&showMenu=false&widgets=&scale=200'' s
      \<or> sublist ''&showMenu=false&widgets=&scale=200'' j)"
proof -
  let ?P = "''&showMenu=false&widgets=&scale=200''"
  have q: "CHR 0x27 \<notin> set ?P" by simp
  have "(''https://maps.web.cern.ch/?n=['SHELF '' @ s @ [CHR 0x27] @ '']'' @ ''&popupContent='' @ j)
      = ''https://maps.web.cern.ch/?n=['' @ CHR 0x27 # ((''SHELF '' @ s) @ CHR 0x27 # ('']'' @ ''&popupContent='' @ j))"
    by simp
  then have "sublist ?P (''https://maps.web.cern.ch/?n=['SHELF '' @ s @ [CHR 0x27] @ '']'' @ ''&popupContent='' @ j)
      = (sublist ?P ''https://maps.web.cern.ch/?n=[''
         \<or> sublist ?P (''SHELF '' @ s)
         \<or> sublist ?P ('']'' @ ''&popupContent='' @ j))"
    by (simp only: sublist_cut [OF q])
  moreover have "\<not> sublist ?P ''https://maps.web.cern.ch/?n=[''"
    using sublist_skip_absent_head [of ?P "''https://maps.web.cern.ch/?n=[''" "[]"] by simp
  moreover have "sublist ?P (''SHELF '' @ s) = sublist ?P s"
    by (rule sublist_skip_absent_head) simp_all
  moreover have "sublist ?P ('']'' @ ''&popupContent='' @ j) = sublist ?P j"
  proof -
    have "sublist ?P ('']'' @ ''&popupContent='' @ j) = sublist ?P (''&popupContent='' @ j)"
      by (rule sublist_skip_absent_head) simp_all
    also have "\<dots> = sublist ?P (''popupContent='' @ j)"
      by (simp add: sublist_Cons_right)
    also have "\<dots> = sublist ?P j"
      by (rule sublist_skip_absent_head) simp_all
    finally show ?thesis .
  qed
  ultimately show ?thesis by simp
qed

text \<open>The definitions that evaluate a call at a concrete input.\<close>

lemmas eval_defs =
  shelfLinkComponent_def renderCallNumber_def lodash_get_def baseGet_def member_def
  shelfLink_def quote_json_def json_escape_def digit_char_def

section \<open>\<^verbatim>\<open>renderCallNumber\<close>\<close>

text \<open>
  Claim C2, as stated: for every item whose \<^verbatim>\<open>identifiers\<close> field is a sequence,
  \<^verbatim>\<open>renderCallNumber\<close> returns \<^verbatim>\<open>"(" + value + ")"\<close> for the first entry whose
  scheme is \<^verbatim>\<open>"CALL_NUMBER"\<close>. It fails for a sequence with a \<^verbatim>\<open>null\<close> entry
  before that entry: the callback reads \<^verbatim>\<open>scheme\<close> of every entry it visits, and
  the read throws.
\<close>

theorem renderCallNumber_null_entry_counterexample:
  "js_get (JObj [(''identifiers'',
                  JArr [JNull,
                        JObj [(''scheme'', JStr ''CALL_NUMBER''), (''value'', JStr ''QA76'')]])])
          ''identifiers''
   = JArr [JNull, JObj [(''scheme'', JStr ''CALL_NUMBER''), (''value'', JStr ''QA76'')]]
   \<and> js_get (JObj [(''scheme'', JStr ''CALL_NUMBER''), (''value'', JStr ''QA76'')]) ''scheme''
     = JStr ''CALL_NUMBER''
   \<and> renderCallNumber
       (JObj [(''identifiers'',
               JArr [JNull,
                     JObj [(''scheme'', JStr ''CALL_NUMBER''), (''value'', JStr ''QA76'')]])])
     = Inl (TypeError ''scheme'')"
  by (simp add: renderCallNumber_def lodash_get_def baseGet_def member_def)

text \<open>
  Claim C2, amended. For every item whose \<^verbatim>\<open>identifiers\<close> field is a sequence
  \<open>ids\<close>, the first entry that is \<^verbatim>\<open>null\<close>, \<^verbatim>\<open>undefined\<close> or of scheme
  \<^verbatim>\<open>"CALL_NUMBER"\<close> decides the result. When it has that scheme (it is then the
  first entry with it, and no entry before it is nullish), the result is
  \<^verbatim>\<open>"(" + value + ")"\<close> for its value, converted as the template literal converts
  it, which leaves a string as it is; the entries after it are not looked at. When
  there is no such entry (no entry has the scheme and none is nullish), the result is
  \<^verbatim>\<open>null\<close>. When it is nullish, the call throws a \<^verbatim>\<open>TypeError\<close> on the read
  of \<^verbatim>\<open>scheme\<close>.
\<close>

theorem renderCallNumber_first_decisive_entry:
  assumes ids: "js_get item ''identifiers'' = JArr ids"
  shows "renderCallNumber item =
           (case List.find (\<lambda>e. nullish e \<or> js_get e ''scheme'' = JStr ''CALL_NUMBER'') ids of
              None \<Rightarrow> Inr JNull
            | Some e \<Rightarrow>
                if nullish e then Inl (TypeError ''scheme'')
                else Inr (JStr (''('' @ ToString (js_get e ''value'') @ '')'')))"
proof -
  let ?d = "\<lambda>e. nullish e \<or> js_get e ''scheme'' = JStr ''CALL_NUMBER''"
  have search: "call_find (lodash_get item [''identifiers''] (JArr []))
          (\<lambda>identifier. case member identifier ''scheme'' of
                            Inl e \<Rightarrow> Inl e
                          | Inr scheme \<Rightarrow> Inr (strict_equals scheme (JStr ''CALL_NUMBER'')))
        = (case List.find ?d ids of
             None \<Rightarrow> Inr JUndefined
           | Some x \<Rightarrow> if nullish x then Inl (TypeError ''scheme'') else Inr x)"
    using ids by (simp add: lodash_get_key array_find_member strict_equals_JStr)
  show ?thesis
  proof (cases "List.find ?d ids")
    case None
    with search ids show ?thesis
      by (simp add: renderCallNumber_def lodash_get_key)
  next
    case (Some e)
    show ?thesis
    proof (cases "nullish e")
      case True
      with search ids Some show ?thesis
        by (simp add: renderCallNumber_def lodash_get_key)
    next
      case False
      with find_holds [OF Some] have "js_get e ''scheme'' = JStr ''CALL_NUMBER''"
        by simp
      then have "truthy e"
        by (cases e) (simp_all split: if_splits option.splits)
      with search ids Some False show ?thesis
        by (simp add: renderCallNumber_def lodash_get_key member_not_nullish)
    qed
  qed
qed

text \<open>
  The first of two call numbers is rendered, after an identifier of another scheme and
  with a \<^verbatim>\<open>null\<close> entry behind it; a record with an ISBN only has no call number;
  an \<^verbatim>\<open>undefined\<close> entry before the call number makes the call throw.
\<close>

theorem renderCallNumber_first_decisive_entry_witness:
  "renderCallNumber
     (JObj [(''identifiers'',
             JArr [JObj [(''scheme'', JStr ''ISBN''), (''value'', JStr ''0123456789'')],
                   JObj [(''scheme'', JStr ''CALL_NUMBER''), (''value'', JStr ''QA76'')],
                   JNull,
                   JObj [(''scheme'', JStr ''CALL_NUMBER''), (''value'', JStr ''QC21'')]])])
   = Inr (JStr ''(QA76)'')
   \<and> renderCallNumber
       (JObj [(''identifiers'',
               JArr [JObj [(''scheme'', JStr ''ISBN''), (''value'', JStr ''0123456789'')]])])
     = Inr JNull
   \<and> renderCallNumber
       (JObj [(''identifiers'',
               JArr [JObj [(''scheme'', JStr ''ISBN''), (''value'', JStr ''0123456789'')],
                     JUndefined,
                     JObj [(''scheme'', JStr ''CALL_NUMBER''), (''value'', JStr ''QA76'')]])])
     = Inl (TypeError ''scheme'')"
proof -
  let ?isbn = "JObj [(''scheme'', JStr ''ISBN''), (''value'', JStr ''0123456789'')]"
  let ?qa = "JObj [(''scheme'', JStr ''CALL_NUMBER''), (''value'', JStr ''QA76'')]"
  let ?qc = "JObj [(''scheme'', JStr ''CALL_NUMBER''), (''value'', JStr ''QC21'')]"
  have a: "js_get (JObj [(''identifiers'', JArr [?isbn, ?qa, JNull, ?qc])]) ''identifiers''
           = JArr [?isbn, ?qa, JNull, ?qc]"
    by simp
  have b: "js_get (JObj [(''identifiers'', JArr [?isbn])]) ''identifiers'' = JArr [?isbn]"
    by simp
  have c: "js_get (JObj [(''identifiers'', JArr [?isbn, JUndefined, ?qa])]) ''identifiers''
           = JArr [?isbn, JUndefined, ?qa]"
    by simp
  have "renderCallNumber (JObj [(''identifiers'', JArr [?isbn, ?qa, JNull, ?qc])])
        = Inr (JStr ''(QA76)'')"
    using renderCallNumber_first_decisive_entry [OF a] by simp
  moreover
  have "renderCallNumber (JObj [(''identifiers'', JArr [?isbn])]) = Inr JNull"
    using renderCallNumber_first_decisive_entry [OF b] by simp
  moreover
  have "renderCallNumber (JObj [(''identifiers'', JArr [?isbn, JUndefined, ?qa])])
        = Inl (TypeError ''scheme'')"
    using renderCallNumber_first_decisive_entry [OF c] by simp
  ultimately show ?thesis by simp
qed

text \<open>
  Claim C5. When the \<^verbatim>\<open>identifiers\<close> field of the item is \<^verbatim>\<open>null\<close> itself,
  \<^verbatim>\<open>renderCallNumber\<close> returns \<^verbatim>\<open>null\<close>.
\<close>

theorem renderCallNumber_null_identifiers:
  "js_get item ''identifiers'' = JNull \<Longrightarrow> renderCallNumber item = Inr JNull"
  by (simp add: renderCallNumber_def lodash_get_key)

theorem renderCallNumber_null_identifiers_witness:
  "js_get (JObj [(''title'', JStr ''T''), (''identifiers'', JNull)]) ''identifiers'' = JNull
   \<and> renderCallNumber (JObj [(''title'', JStr ''T''), (''identifiers'', JNull)]) = Inr JNull"
  using renderCallNumber_null_identifiers [of "JObj [(''title'', JStr ''T''), (''identifiers'', JNull)]"]
  by simp

text \<open>
  Claim C6. An item without an \<^verbatim>\<open>identifiers\<close> field (the item is nullish, or reading
  the field gives \<^verbatim>\<open>undefined\<close>) raises no error in \<^verbatim>\<open>renderCallNumber\<close>: the
  lookup falls back to the empty sequence, and the result is \<^verbatim>\<open>null\<close>.
\<close>

theorem renderCallNumber_absent_identifiers:
  assumes "nullish item \<or> js_get item ''identifiers'' = JUndefined"
  shows "lodash_get item [''identifiers''] (JArr []) = JArr []
       \<and> renderCallNumber item = Inr JNull"
proof -
  from assms have "js_get item ''identifiers'' = JUndefined"
    by (auto simp: js_get_nullish)
  then show ?thesis
    by (simp add: renderCallNumber_def lodash_get_key)
qed

theorem renderCallNumber_absent_identifiers_witness:
  "js_get (JObj [(''title'', JStr ''T'')]) ''identifiers'' = JUndefined
   \<and> lodash_get (JObj [(''title'', JStr ''T'')]) [''identifiers''] (JArr []) = JArr []
   \<and> renderCallNumber (JObj [(''title'', JStr ''T'')]) = Inr JNull"
  using renderCallNumber_absent_identifiers [of "JObj [(''title'', JStr ''T'')]"]
  by simp

section \<open>\<^verbatim>\<open>shelfLink\<close>\<close>

text \<open>
  Claim C7. \<^verbatim>\<open>shelfLink("B12", {popupContent: null, iframe: false})\<close> is the base URL
  of the map service with \<^verbatim>\<open>B12\<close> in it, and nothing after it.
\<close>

theorem shelfLink_B12_plain:
  "shelfLink (JStr ''B12'') (JObj [(''popupContent'', JNull), (''iframe'', JBool False)])
   = Inr ''https://maps.web.cern.ch/?n=['SHELF B12']''"
  by (simp add: shelfLink_def member_def)

text \<open>
  Claim C3. For every shelf number, and every popup content that is neither
  \<^verbatim>\<open>null\<close> nor \<^verbatim>\<open>undefined\<close> (an \<^verbatim>\<open>undefined\<close> one takes the default
  \<^verbatim>\<open>null\<close>), \<^verbatim>\<open>shelfLink(shelfNumber, {popupContent, iframe: true})\<close> is the base URL
  with the shelf number interpolated, then the \<^verbatim>\<open>popupContent\<close> parameter with the
  JSON text of the popup content, then the fixed display parameters.
\<close>

theorem shelfLink_popup_then_iframe:
  assumes "\<not> nullish popupContent"
  shows "\<exists>json. JSON_stringify popupContent = Some json
          \<and> shelfLink shelfNumber (JObj [(''popupContent'', popupContent), (''iframe'', JBool True)])
            = Inr (''https://maps.web.cern.ch/?n=['SHELF '' @ ToString shelfNumber @ [CHR 0x27] @ '']''
                   @ ''&popupContent='' @ json
                   @ ''&showMenu=false&widgets=&scale=200'')"
  using assms by (cases popupContent) (simp_all add: shelfLink_def member_def)

theorem shelfLink_popup_then_iframe_witness:
  \<open>\<not> nullish (JObj [(''Title'', JStr ''X'')])
   \<and> shelfLink (JStr ''B12'') (JObj [(''popupContent'', JObj [(''Title'', JStr ''X'')]),
                                      (''iframe'', JBool True)])
     = Inr (''https://maps.web.cern.ch/?n=['SHELF B12']''
            @ ''&popupContent={"Title":"X"}''
            @ ''&showMenu=false&widgets=&scale=200'')\<close>
  using shelfLink_popup_then_iframe [of "JObj [(''Title'', JStr ''X'')]" "JStr ''B12''"]
  by (simp add: quote_json_def json_escape_def)

section \<open>\<^verbatim>\<open>shelfLinkComponent\<close>\<close>

text \<open>
  Claim C9. For an item that is \<^verbatim>\<open>null\<close> or \<^verbatim>\<open>undefined\<close>,
  \<^verbatim>\<open>renderCallNumber\<close> returns \<^verbatim>\<open>null\<close> without an error, the read of
  \<^verbatim>\<open>item.title\<close> throws, and so \<^verbatim>\<open>shelfLinkComponent\<close> fails with that error,
  whatever the icon name.
\<close>

theorem shelfLinkComponent_nullish_item:
  "renderCallNumber JNull = Inr JNull
   \<and> member JNull ''title'' = Inl (TypeError ''title'')
   \<and> shelfLinkComponent JNull iconName = Inl (TypeError ''title'')
   \<and> renderCallNumber JUndefined = Inr JNull
   \<and> member JUndefined ''title'' = Inl (TypeError ''title'')
   \<and> shelfLinkComponent JUndefined iconName = Inl (TypeError ''title'')"
  by (simp add: shelfLinkComponent_def renderCallNumber_def lodash_get_def member_def)

text \<open>
  Claim C4. In the fragment that \<^verbatim>\<open>shelfLinkComponent\<close> returns, the anchor with
  the icon and the shelf number is there exactly when the shelf number read from the
  item is truthy: then it is the only anchor, and otherwise the fragment has no anchor
  at all. In that second case a call number that is not \<^verbatim>\<open>null\<close> is a string and
  is still a child of the fragment.
\<close>

theorem shelfLinkComponent_anchor_iff_shelf:
  assumes "shelfLinkComponent item iconName = Inr frag"
  shows "(truthy (lodash_get item [''shelf''] JUndefined) \<longrightarrow>
            (\<exists>link. filter is_anchor (subnodes frag)
                     = [Anchor link ''_blank'' ''noreferrer''
                          [Icon (if iconName = JUndefined then JStr ''map pin'' else iconName),
                           Child (lodash_get item [''shelf''] JUndefined)]]))
       \<and> (\<not> truthy (lodash_get item [''shelf''] JUndefined) \<longrightarrow>
            filter is_anchor (subnodes frag) = []
            \<and> (\<forall>cn. renderCallNumber item = Inr cn \<and> cn \<noteq> JNull \<longrightarrow>
                  (\<exists>s. cn = JStr s) \<and> Child cn \<in> set (subnodes frag)))"
proof -
  from shelfLinkComponent_unfold [OF assms] obtain cn link where
    cn: "renderCallNumber item = Inr cn" and
    frag: "frag = Fragment
                    [if truthy (lodash_get item [''shelf''] JUndefined)
                     then Anchor link ''_blank'' ''noreferrer''
                            [Icon (if iconName = JUndefined then JStr ''map pin'' else iconName),
                             Child (lodash_get item [''shelf''] JUndefined)]
                     else Child (lodash_get item [''shelf''] JUndefined),
                     Child (JStr '' ''),
                     Child cn]"
    by blast
  show ?thesis
  proof (cases "truthy (lodash_get item [''shelf''] JUndefined)")
    case True
    then show ?thesis by (simp add: frag)
  next
    case False
    have "(\<exists>s. cn' = JStr s) \<and> Child cn' \<in> set (subnodes frag)"
      if "renderCallNumber item = Inr cn'" "cn' \<noteq> JNull" for cn'
      using that cn renderCallNumber_cases [of item cn'] False by (auto simp: frag)
    with False show ?thesis by (simp add: frag)
  qed
qed

text \<open>
  A shelved copy and an unshelved one, both with the call number \<^verbatim>\<open>QA76\<close>.
\<close>

theorem shelfLinkComponent_anchor_iff_shelf_witness:
  \<open>shelfLinkComponent
     (JObj [(''shelf'', JStr ''B12''), (''title'', JStr ''T''),
            (''identifiers'',
             JArr [JObj [(''scheme'', JStr ''CALL_NUMBER''), (''value'', JStr ''QA76'')]])])
     JUndefined
   = Inr (Fragment
        [Anchor ''https://maps.web.cern.ch/?n=['SHELF B12']&popupContent={"Title":"T","Call number":"(QA76)"}''
                ''_blank'' ''noreferrer'' [Icon (JStr ''map pin''), Child (JStr ''B12'')],
         Child (JStr '' ''),
         Child (JStr ''(QA76)'')])
   \<and> filter is_anchor
       (subnodes (Fragment
          [Anchor ''https://maps.web.cern.ch/?n=['SHELF B12']&popupContent={"Title":"T","Call number":"(QA76)"}''
                  ''_blank'' ''noreferrer'' [Icon (JStr ''map pin''), Child (JStr ''B12'')],
           Child (JStr '' ''),
           Child (JStr ''(QA76)'')]))
     = [Anchor ''https://maps.web.cern.ch/?n=['SHELF B12']&popupContent={"Title":"T","Call number":"(QA76)"}''
               ''_blank'' ''noreferrer'' [Icon (JStr ''map pin''), Child (JStr ''B12'')]]
   \<and> shelfLinkComponent
       (JObj [(''title'', JStr ''T''),
              (''identifiers'',
               JArr [JObj [(''scheme'', JStr ''CALL_NUMBER''), (''value'', JStr ''QA76'')]])])
       JUndefined
     = Inr (Fragment [Child JUndefined, Child (JStr '' ''), Child (JStr ''(QA76)'')])
   \<and> filter is_anchor
       (subnodes (Fragment [Child JUndefined, Child (JStr '' ''), Child (JStr ''(QA76)'')]))
     = []
   \<and> Child (JStr ''(QA76)'')
       \<in> set (subnodes (Fragment [Child JUndefined, Child (JStr '' ''), Child (JStr ''(QA76)'')]))\<close>
proof -
  let ?ids = "JArr [JObj [(''scheme'', JStr ''CALL_NUMBER''), (''value'', JStr ''QA76'')]]"
  let ?shelved = "JObj [(''shelf'', JStr ''B12''), (''title'', JStr ''T''), (''identifiers'', ?ids)]"
  let ?unshelved = "JObj [(''title'', JStr ''T''), (''identifiers'', ?ids)]"
  have shelved: \<open>shelfLinkComponent ?shelved JUndefined
      = Inr (Fragment
        [Anchor ''https://maps.web.cern.ch/?n=['SHELF B12']&popupContent={"Title":"T","Call number":"(QA76)"}''
                ''_blank'' ''noreferrer'' [Icon (JStr ''map pin''), Child (JStr ''B12'')],
         Child (JStr '' ''),
         Child (JStr ''(QA76)'')])\<close>
    by (simp add: eval_defs)
  have unshelved: "shelfLinkComponent ?unshelved JUndefined
      = Inr (Fragment [Child JUndefined, Child (JStr '' ''), Child (JStr ''(QA76)'')])"
    by (simp add: eval_defs)
  have cn: "renderCallNumber ?unshelved = Inr (JStr ''(QA76)'')"
    by (simp add: eval_defs)
  have shelf: "lodash_get ?shelved [''shelf''] JUndefined = JStr ''B12''"
       "lodash_get ?unshelved [''shelf''] JUndefined = JUndefined"
    by (simp_all add: eval_defs)
  have anchors: \<open>filter is_anchor
       (subnodes (Fragment
          [Anchor ''https://maps.web.cern.ch/?n=['SHELF B12']&popupContent={"Title":"T","Call number":"(QA76)"}''
                  ''_blank'' ''noreferrer'' [Icon (JStr ''map pin''), Child (JStr ''B12'')],
           Child (JStr '' ''),
           Child (JStr ''(QA76)'')]))
     = [Anchor ''https://maps.web.cern.ch/?n=['SHELF B12']&popupContent={"Title":"T","Call number":"(QA76)"}''
               ''_blank'' ''noreferrer'' [Icon (JStr ''map pin''), Child (JStr ''B12'')]]
   \<and> filter is_anchor
       (subnodes (Fragment [Child JUndefined, Child (JStr '' ''), Child (JStr ''(QA76)'')]))
     = []
   \<and> Child (JStr ''(QA76)'')
       \<in> set (subnodes (Fragment [Child JUndefined, Child (JStr '' ''), Child (JStr ''(QA76)'')]))\<close>
    using shelfLinkComponent_anchor_iff_shelf [OF shelved]
          shelfLinkComponent_anchor_iff_shelf [OF unshelved] cn
    by (simp add: shelf)
  show ?thesis
    by (rule conjI [OF shelved conjI [OF conjunct1 [OF anchors]
          conjI [OF unshelved conjunct2 [OF anchors]]]])
qed

text \<open>
  Claim C10, as stated: with a truthy shelf the URL of the anchor always has the
  \<^verbatim>\<open>popupContent\<close> parameter and never contains the display parameters of the
  iframe option. The second half fails: the shelf number is interpolated as it is, so
  a shelf number that carries the text of the display parameters puts it in the URL.
\<close>

theorem shelfLinkComponent_href_iframe_counterexample:
  \<open>truthy (lodash_get (JObj [(''shelf'', JStr ''B12&showMenu=false&widgets=&scale=200''),
                              (''title'', JStr ''T'')]) [''shelf''] JUndefined)
   \<and> shelfLinkComponent (JObj [(''shelf'', JStr ''B12&showMenu=false&widgets=&scale=200''),
                               (''title'', JStr ''T'')]) JUndefined
     = Inr (Fragment
        [Anchor (''https://maps.web.cern.ch/?n=['SHELF B12''
                   @ ''&showMenu=false&widgets=&scale=200''
                   @ [CHR 0x27] @ '']&popupContent={"Title":"T","Call number":null}'')
                ''_blank'' ''noreferrer''
                [Icon (JStr ''map pin''), Child (JStr ''B12&showMenu=false&widgets=&scale=200'')],
         Child (JStr '' ''),
         Child JNull])
   \<and> sublist ''&showMenu=false&widgets=&scale=200''
        (''https://maps.web.cern.ch/?n=['SHELF B12''
           @ ''&showMenu=false&widgets=&scale=200''
           @ [CHR 0x27] @ '']&popupContent={"Title":"T","Call number":null}'')\<close>
proof -
  have \<open>shelfLinkComponent (JObj [(''shelf'', JStr ''B12&showMenu=false&widgets=&scale=200''),
                               (''title'', JStr ''T'')]) JUndefined
     = Inr (Fragment
        [Anchor (''https://maps.web.cern.ch/?n=['SHELF B12''
                   @ ''&showMenu=false&widgets=&scale=200''
                   @ [CHR 0x27] @ '']&popupContent={"Title":"T","Call number":null}'')
                ''_blank'' ''noreferrer''
                [Icon (JStr ''map pin''), Child (JStr ''B12&showMenu=false&widgets=&scale=200'')],
         Child (JStr '' ''),
         Child JNull])\<close>
    by (simp add: eval_defs)
  moreover have \<open>sublist ''&showMenu=false&widgets=&scale=200''
        (''https://maps.web.cern.ch/?n=['SHELF B12''
           @ ''&showMenu=false&widgets=&scale=200''
           @ [CHR 0x27] @ '']&popupContent={"Title":"T","Call number":null}'')\<close>
    by (rule sublist_appendI)
  moreover have "truthy (lodash_get (JObj [(''shelf'', JStr ''B12&showMenu=false&widgets=&scale=200''),
                              (''title'', JStr ''T'')]) [''shelf''] JUndefined)"
    by (simp add: eval_defs)
  ultimately show ?thesis by blast
qed

text \<open>
  Claim C10, amended. With a truthy shelf, the URL of the one anchor is the base URL
  with the shelf number, followed by the \<^verbatim>\<open>popupContent\<close> parameter with the JSON
  text of the popup metadata \<^verbatim>\<open>{"Title", "Call number"}\<close> (an object, never
  \<^verbatim>\<open>null\<close>), and nothing after it: it is the URL \<^verbatim>\<open>shelfLink\<close> gives with the
  iframe option off, and it does not end in the display parameters. Their text occurs
  in the URL only when the shelf number or the JSON text of the popup metadata
  contains it.
\<close>

theorem shelfLinkComponent_href:
  assumes shelf: "truthy (lodash_get item [''shelf''] JUndefined)"
      and frag: "shelfLinkComponent item iconName = Inr frag"
  shows "\<exists>cn json link.
           renderCallNumber item = Inr cn
         \<and> JSON_stringify (JObj [(''Title'', js_get item ''title''), (''Call number'', cn)]) = Some json
         \<and> link = ''https://maps.web.cern.ch/?n=['SHELF ''
                    @ ToString (lodash_get item [''shelf''] JUndefined) @ [CHR 0x27] @ '']''
                    @ ''&popupContent='' @ json
         \<and> map href (filter is_anchor (subnodes frag)) = [link]
         \<and> shelfLink (lodash_get item [''shelf''] JUndefined)
                      (JObj [(''popupContent'',
                              JObj [(''Title'', js_get item ''title''), (''Call number'', cn)]),
                             (''iframe'', JBool False)])
             = Inr link
         \<and> \<not> suffix ''&showMenu=false&widgets=&scale=200'' link
         \<and> (sublist ''&showMenu=false&widgets=&scale=200'' link
              \<longleftrightarrow> sublist ''&showMenu=false&widgets=&scale=200''
                        (ToString (lodash_get item [''shelf''] JUndefined))
                  \<or> sublist ''&showMenu=false&widgets=&scale=200'' json)"
proof -
  let ?shelf = "lodash_get item [''shelf''] JUndefined"
  from shelfLinkComponent_unfold [OF frag] obtain cn link where
    cn: "renderCallNumber item = Inr cn" and
    link: "shelfLink ?shelf
             (JObj [(''popupContent'',
                     JObj [(''Title'', js_get item ''title''), (''Call number'', cn)])])
           = Inr link" and
    fr0: "frag = Fragment
                  [if truthy ?shelf
                   then Anchor link ''_blank'' ''noreferrer''
                     [Icon (if iconName = JUndefined then JStr ''map pin'' else iconName),
                      Child ?shelf]
                   else Child ?shelf,
                   Child (JStr '' ''),
                   Child cn]"
    by blast
  from fr0 shelf have hrefs: "map href (filter is_anchor (subnodes frag)) = [link]"
    by simp
  let ?pc = "JObj [(''Title'', js_get item ''title''), (''Call number'', cn)]"
  obtain body where json: "JSON_stringify ?pc = Some (''{'' @ body @ ''}'')"
    by simp
  let ?json = "''{'' @ body @ ''}''"
  have link_eq: "link = ''https://maps.web.cern.ch/?n=['SHELF '' @ ToString ?shelf @ [CHR 0x27] @ '']''
                        @ ''&popupContent='' @ ?json"
    using link json by (simp add: shelfLink_def member_def)
  have off: "shelfLink ?shelf (JObj [(''popupContent'', ?pc), (''iframe'', JBool False)]) = Inr link"
    using link_eq json by (simp add: shelfLink_def member_def)
  have "last link = CHR ''}''"
    by (simp add: link_eq)
  moreover have "last l = CHR ''0''" if "suffix ''&showMenu=false&widgets=&scale=200'' l" for l
    using that by (auto simp: suffix_def)
  ultimately have no_suffix: "\<not> suffix ''&showMenu=false&widgets=&scale=200'' link"
    by auto
  have inside: "sublist ''&showMenu=false&widgets=&scale=200'' link
              \<longleftrightarrow> sublist ''&showMenu=false&widgets=&scale=200'' (ToString ?shelf)
                  \<or> sublist ''&showMenu=false&widgets=&scale=200'' ?json"
    unfolding link_eq by (rule iframe_params_in_link)
  from cn json link_eq hrefs off no_suffix inside show ?thesis
    by (intro exI [of _ cn] exI [of _ ?json] exI [of _ link] conjI)
qed

theorem shelfLinkComponent_href_witness:
  \<open>truthy (lodash_get (JObj [(''shelf'', JStr ''B12''), (''title'', JStr ''T'')])
                      [''shelf''] JUndefined)
   \<and> shelfLinkComponent (JObj [(''shelf'', JStr ''B12''), (''title'', JStr ''T'')]) JUndefined
     = Inr (Fragment
        [Anchor ''https://maps.web.cern.ch/?n=['SHELF B12']&popupContent={"Title":"T","Call number":null}''
                ''_blank'' ''noreferrer'' [Icon (JStr ''map pin''), Child (JStr ''B12'')],
         Child (JStr '' ''),
         Child JNull])
   \<and> shelfLink (JStr ''B12'')
        (JObj [(''popupContent'', JObj [(''Title'', JStr ''T''), (''Call number'', JNull)]),
               (''iframe'', JBool False)])
     = Inr ''https://maps.web.cern.ch/?n=['SHELF B12']&popupContent={"Title":"T","Call number":null}''
   \<and> \<not> sublist ''&showMenu=false&widgets=&scale=200''
          ''https://maps.web.cern.ch/?n=['SHELF B12']&popupContent={"Title":"T","Call number":null}''\<close>
proof -
  let ?item = "JObj [(''shelf'', JStr ''B12''), (''title'', JStr ''T'')]"
  let ?P = "''&showMenu=false&widgets=&scale=200''"
  have shelf: "lodash_get ?item [''shelf''] JUndefined = JStr ''B12''"
    by (simp add: eval_defs)
  then have truthy: "truthy (lodash_get ?item [''shelf''] JUndefined)"
    by simp
  have frag: \<open>shelfLinkComponent ?item JUndefined
      = Inr (Fragment
        [Anchor ''https://maps.web.cern.ch/?n=['SHELF B12']&popupContent={"Title":"T","Call number":null}''
                ''_blank'' ''noreferrer'' [Icon (JStr ''map pin''), Child (JStr ''B12'')],
         Child (JStr '' ''),
         Child JNull])\<close>
    by (simp add: eval_defs)
  have cn: "renderCallNumber ?item = Inr JNull"
    by (simp add: eval_defs)
  have no: \<open>\<not> sublist ?P ''B12''\<close>
       \<open>\<not> sublist ?P ''{"Title":"T","Call number":null}''\<close>
    by (simp_all add: sublist_code)
  from shelfLinkComponent_href [OF truthy frag] obtain c json link where
    c: "renderCallNumber ?item = Inr c" and
    json: "JSON_stringify (JObj [(''Title'', js_get ?item ''title''), (''Call number'', c)]) = Some json" and
    link: "link = ''https://maps.web.cern.ch/?n=['SHELF ''
              @ ToString (lodash_get ?item [''shelf''] JUndefined) @ [CHR 0x27] @ '']''
              @ ''&popupContent='' @ json" and
    rest: "shelfLink (lodash_get ?item [''shelf''] JUndefined)
               (JObj [(''popupContent'',
                       JObj [(''Title'', js_get ?item ''title''), (''Call number'', c)]),
                      (''iframe'', JBool False)])
           = Inr link"
          "sublist ?P link
             \<longleftrightarrow> sublist ?P (ToString (lodash_get ?item [''shelf''] JUndefined))
                 \<or> sublist ?P json"
    by (elim exE conjE)
  from c cn have c_null: "c = JNull"
    by simp
  from json have json_eq: \<open>json = ''{"Title":"T","Call number":null}''\<close>
    by (simp add: c_null quote_json_def json_escape_def)
  from link have link_eq:
    \<open>link = ''https://maps.web.cern.ch/?n=['SHELF B12']&popupContent={"Title":"T","Call number":null}''\<close>
    by (simp add: shelf json_eq)
  from rest(2) no have "\<not> sublist ?P link"
    by (simp only: shelf json_eq ToString.simps simp_thms)
  moreover from rest(1) have "shelfLink (JStr ''B12'')
        (JObj [(''popupContent'', JObj [(''Title'', JStr ''T''), (''Call number'', JNull)]),
               (''iframe'', JBool False)]) = Inr link"
    by (simp add: shelf c_null)
  ultimately have both: \<open>shelfLink (JStr ''B12'')
        (JObj [(''popupContent'', JObj [(''Title'', JStr ''T''), (''Call number'', JNull)]),
               (''iframe'', JBool False)])
     = Inr ''https://maps.web.cern.ch/?n=['SHELF B12']&popupContent={"Title":"T","Call number":null}''
   \<and> \<not> sublist ?P
          ''https://maps.web.cern.ch/?n=['SHELF B12']&popupContent={"Title":"T","Call number":null}''\<close>
    unfolding link_eq by simp
  show ?thesis
    by (rule conjI [OF truthy conjI [OF frag both]])
qed

section \<open>\<^verbatim>\<open>getDisplayVal\<close>\<close>

text \<open>
  Claim C1, as stated: \<^verbatim>\<open>getDisplayVal\<close> returns the text of the matching entry
  exactly when the configuration has a sequence at \<^verbatim>\<open>configField\<close> and an entry of
  it has the given value, and fails otherwise. It fails also with a matching entry in
  the sequence, when a \<^verbatim>\<open>null\<close> entry comes before it: the callback reads
  \<^verbatim>\<open>value\<close> of every entry it visits, and the read throws.
\<close>

theorem getDisplayVal_null_entry_counterexample:
  "lodash_get
     (JObj [(''ITEMS'', JObj [(''statuses'',
               JArr [JNull,
                     JObj [(''value'', JStr ''MISSING''), (''text'', JStr ''Missing'')]])])])
     [''ITEMS'', ''statuses''] JUndefined
   = JArr [JNull, JObj [(''value'', JStr ''MISSING''), (''text'', JStr ''Missing'')]]
   \<and> strict_equals
       (js_get (JObj [(''value'', JStr ''MISSING''), (''text'', JStr ''Missing'')]) ''value'')
       (JStr ''MISSING'')
   \<and> getDisplayVal
       (JObj [(''ITEMS'', JObj [(''statuses'',
                 JArr [JNull,
                       JObj [(''value'', JStr ''MISSING''), (''text'', JStr ''Missing'')]])])])
       [''ITEMS'', ''statuses''] (JStr ''MISSING'')
     = Inl (TypeError ''value'')"
  by (simp add: getDisplayVal_def lodash_get_def baseGet_def member_def)

text \<open>
  Claim C1, amended. When the configuration has a sequence at \<^verbatim>\<open>configField\<close>,
  the first entry that is \<^verbatim>\<open>null\<close>, \<^verbatim>\<open>undefined\<close> or whose value is
  \<^verbatim>\<open>===\<close> to the given one decides the result. \<^verbatim>\<open>getDisplayVal\<close> returns the
  text of that entry exactly when it is a matching one, that is, when an entry matches
  and no entry before the first match is nullish. In every other case the call fails
  with a \<^verbatim>\<open>TypeError\<close> and returns no fallback value: on the read of
  \<^verbatim>\<open>value\<close> when that entry is nullish, on the read of \<^verbatim>\<open>text\<close> when there
  is no such entry, and on \<^verbatim>\<open>find\<close> when the configuration has no sequence at
  the path (the field is absent, \<^verbatim>\<open>null\<close> or not an array).
\<close>

theorem getDisplayVal_first_decisive_entry:
  "getDisplayVal invenioConfig configField val =
     (case lodash_get invenioConfig configField JUndefined of
        JArr es \<Rightarrow>
          (case List.find (\<lambda>e. nullish e \<or> strict_equals (js_get e ''value'') val) es of
             None \<Rightarrow> Inl (TypeError ''text'')
           | Some e \<Rightarrow>
               if nullish e then Inl (TypeError ''value'')
               else Inr (js_get e ''text''))
      | _ \<Rightarrow> Inl (TypeError ''find''))"
proof (cases "lodash_get invenioConfig configField JUndefined")
  case (JArr es)
  let ?d = "\<lambda>e. nullish e \<or> strict_equals (js_get e ''value'') val"
  have search: "call_find (lodash_get invenioConfig configField JUndefined)
          (\<lambda>entry. case member entry ''value'' of
                      Inl e \<Rightarrow> Inl e
                    | Inr v \<Rightarrow> Inr (strict_equals v val))
        = (case List.find ?d es of
             None \<Rightarrow> Inr JUndefined
           | Some x \<Rightarrow> if nullish x then Inl (TypeError ''value'') else Inr x)"
    using JArr by (simp add: array_find_member)
  show ?thesis
  proof (cases "List.find ?d es")
    case None
    with search JArr show ?thesis
      by (simp add: getDisplayVal_def member_def)
  next
    case (Some e)
    with search JArr show ?thesis
      by (simp add: getDisplayVal_def member_def)
  qed
qed (simp_all add: getDisplayVal_def)

text \<open>
  A configuration with item statuses: a status that is listed, with a \<^verbatim>\<open>null\<close>
  entry behind it; a status that is not listed, with and without that \<^verbatim>\<open>null\<close>
  entry; and a field that the configuration does not have.
\<close>

theorem getDisplayVal_first_decisive_entry_witness:
  "getDisplayVal
     (JObj [(''ITEMS'', JObj [(''statuses'',
               JArr [JObj [(''value'', JStr ''CAN_CIRCULATE''), (''text'', JStr ''Can circulate'')],
                     JObj [(''value'', JStr ''MISSING''), (''text'', JStr ''Missing'')],
                     JNull])])])
     [''ITEMS'', ''statuses''] (JStr ''MISSING'')
   = Inr (JStr ''Missing'')
   \<and> getDisplayVal
       (JObj [(''ITEMS'', JObj [(''statuses'',
                 JArr [JObj [(''value'', JStr ''CAN_CIRCULATE''), (''text'', JStr ''Can circulate'')],
                       JObj [(''value'', JStr ''MISSING''), (''text'', JStr ''Missing'')],
                       JNull])])])
       [''ITEMS'', ''statuses''] (JStr ''SCANNING'')
     = Inl (TypeError ''value'')
   \<and> getDisplayVal
       (JObj [(''ITEMS'', JObj [(''statuses'',
                 JArr [JObj [(''value'', JStr ''CAN_CIRCULATE''), (''text'', JStr ''Can circulate'')],
                       JObj [(''value'', JStr ''MISSING''), (''text'', JStr ''Missing'')]])])])
       [''ITEMS'', ''statuses''] (JStr ''SCANNING'')
     = Inl (TypeError ''text'')
   \<and> getDisplayVal
       (JObj [(''ITEMS'', JObj [(''statuses'',
                 JArr [JObj [(''value'', JStr ''CAN_CIRCULATE''), (''text'', JStr ''Can circulate'')],
                       JObj [(''value'', JStr ''MISSING''), (''text'', JStr ''Missing'')]])])])
       [''ITEMS'', ''mediums''] (JStr ''MISSING'')
     = Inl (TypeError ''find'')"
proof -
  let ?can = "JObj [(''value'', JStr ''CAN_CIRCULATE''), (''text'', JStr ''Can circulate'')]"
  let ?mis = "JObj [(''value'', JStr ''MISSING''), (''text'', JStr ''Missing'')]"
  let ?cfg = "\<lambda>es. JObj [(''ITEMS'', JObj [(''statuses'', JArr es)])]"
  have look: "lodash_get (?cfg es) [''ITEMS'', ''statuses''] JUndefined = JArr es" for es
    by (simp add: lodash_get_def baseGet_def)
  have absent: "lodash_get (?cfg es) [''ITEMS'', ''mediums''] JUndefined = JUndefined" for es
    by (simp add: lodash_get_def baseGet_def)
  have "getDisplayVal (?cfg [?can, ?mis, JNull]) [''ITEMS'', ''statuses''] (JStr ''MISSING'')
        = Inr (JStr ''Missing'')"
    using getDisplayVal_first_decisive_entry
            [of "?cfg [?can, ?mis, JNull]" "[''ITEMS'', ''statuses'']" "JStr ''MISSING''"]
    by (simp add: look)
  moreover
  have "getDisplayVal (?cfg [?can, ?mis, JNull]) [''ITEMS'', ''statuses''] (JStr ''SCANNING'')
        = Inl (TypeError ''value'')"
    using getDisplayVal_first_decisive_entry
            [of "?cfg [?can, ?mis, JNull]" "[''ITEMS'', ''statuses'']" "JStr ''SCANNING''"]
    by (simp add: look)
  moreover
  have "getDisplayVal (?cfg [?can, ?mis]) [''ITEMS'', ''statuses''] (JStr ''SCANNING'')
        = Inl (TypeError ''text'')"
    using getDisplayVal_first_decisive_entry
            [of "?cfg [?can, ?mis]" "[''ITEMS'', ''statuses'']" "JStr ''SCANNING''"]
    by (simp add: look)
  moreover
  have "getDisplayVal (?cfg [?can, ?mis]) [''ITEMS'', ''mediums''] (JStr ''MISSING'')
        = Inl (TypeError ''find'')"
    using getDisplayVal_first_decisive_entry
            [of "?cfg [?can, ?mis]" "[''ITEMS'', ''mediums'']" "JStr ''MISSING''"]
    by (simp add: absent)
  ultimately show ?thesis by simp
qed

end
